theory Spec2Isabelle
  imports Complex_Main "HOL-Library.Sublist" "HOL-Library.Log_Nat"
begin

section \<open>Python values and the run-time library\<close>

text \<open>
  A Python \<open>str\<close> is a sequence of Unicode code points: indexing, slicing and
  \<open>startswith\<close> count code points, and the bullet \<open>U+2022\<close> of the source is one
  of them. A string is therefore a list of code points, and \<open>ascii\<close> turns
  a literal of the theory into one.
\<close>

type_synonym pystr = "nat list"

definition ascii :: "string \<Rightarrow> pystr" where
  "ascii cs = map of_char cs"

text \<open>
  The values \<open>json.loads\<close> can produce, and so the values the four components of the
  returned tuple can hold: the structured path returns what \<open>dict.get\<close> finds.
  A dictionary is an association list (keys in insertion order, each once).
\<close>

datatype pyfloat = Finite rat | PosInf | NegInf | NaN

datatype pyval =
    PNone
  | PBool bool
  | PInt int
  | PFloat pyfloat
  | PStr pystr
  | PList "pyval list"
  | PDict "(pystr \<times> pyval) list"

text \<open>
  Exceptions of class \<open>Exception\<close>, the class every handler of the service names.
\<close>

datatype pyexn = JSONDecodeError | AttributeError | ValueError | ModelError

type_synonym comparison = "pyval \<times> pyval \<times> pyval \<times> pyval"

text \<open>
  What the service takes from the Python run time and not from the repository: the
  Unicode character database behind \<open>str.strip\<close>, \<open>str.split\<close>,
  \<open>str.lower\<close>, \<open>\s\<close>, \<open>\d\<close> and \<open>re.IGNORECASE\<close>, the length limit of
  \<open>int\<close> on a digit string (\<open>0\<close>: no limit) and the decoder \<open>json.loads\<close>.
  They are parameters of the model; every general theorem below holds for all of them.
\<close>

record runtime =
  isspace :: "nat \<Rightarrow> bool"
  lower :: "pystr \<Rightarrow> pystr"
  ci_eq :: "nat \<Rightarrow> nat \<Rightarrow> bool"
  digit_value :: "nat \<Rightarrow> nat option"
  max_str_digits :: nat
  loads :: "pystr \<Rightarrow> pyexn + pyval"

definition try_except :: "pyexn + 'a \<Rightarrow> (pyexn \<Rightarrow> pyexn + 'a) \<Rightarrow> pyexn + 'a" where
  "try_except body handler = (case body of Inl e \<Rightarrow> handler e | Inr v \<Rightarrow> Inr v)"

subsection \<open>String operations\<close>

definition strip :: "runtime \<Rightarrow> pystr \<Rightarrow> pystr" where
  "strip rt s = rev (dropWhile (isspace rt) (rev (dropWhile (isspace rt) s)))"

fun split_on :: "nat \<Rightarrow> pystr \<Rightarrow> pystr list" where
  "split_on d [] = [[]]"
| "split_on d (c # cs) =
     (if c = d then [] # split_on d cs
      else (case split_on d cs of [] \<Rightarrow> [[c]] | l # ls \<Rightarrow> (c # l) # ls))"

text \<open>\<open>str.split()\<close> with no argument: the maximal runs of non-whitespace.\<close>

fun split_ws :: "runtime \<Rightarrow> pystr \<Rightarrow> pystr \<Rightarrow> pystr list" where
  "split_ws rt w [] = (if w = [] then [] else [rev w])"
| "split_ws rt w (c # cs) =
     (if isspace rt c then (if w = [] then split_ws rt [] cs else rev w # split_ws rt [] cs)
      else split_ws rt (c # w) cs)"

definition split :: "runtime \<Rightarrow> pystr \<Rightarrow> pystr list" where
  "split rt s = split_ws rt [] s"

definition startswith :: "pystr \<Rightarrow> pystr \<Rightarrow> bool" where
  "startswith s p = (take (length p) s = p)"

text \<open>\<open>sub in s\<close>: \<open>sub\<close> occurs in \<open>s\<close> as a contiguous substring.\<close>

fun contains :: "pystr \<Rightarrow> pystr \<Rightarrow> bool" where
  "contains sub [] = (sub = [])"
| "contains sub (c # cs) = (startswith (c # cs) sub \<or> contains sub cs)"

section \<open>The heuristic line scan: \<open>_fallback_parsing\<close>\<close>

text \<open>
  \<open>re.search(r'accuracy[_\s]?score[:\s]*(\d+)', text, re.IGNORECASE)\<close>: the leftmost
  start at which the pattern matches, each quantifier greedy and giving back on
  failure. The result is group 1, the run of digits.
\<close>

fun match_literal :: "runtime \<Rightarrow> pystr \<Rightarrow> pystr \<Rightarrow> pystr option" where
  "match_literal rt [] s = Some s"
| "match_literal rt (p # ps) [] = None"
| "match_literal rt (p # ps) (c # cs) = (if ci_eq rt p c then match_literal rt ps cs else None)"

definition is_digit :: "runtime \<Rightarrow> nat \<Rightarrow> bool" where
  "is_digit rt c = (digit_value rt c \<noteq> None)"

definition match_digits :: "runtime \<Rightarrow> pystr \<Rightarrow> pystr option" where
  "match_digits rt s = (let d = takeWhile (is_digit rt) s in if d = [] then None else Some d)"

fun match_seps_digits :: "runtime \<Rightarrow> pystr \<Rightarrow> pystr option" where
  "match_seps_digits rt [] = None"
| "match_seps_digits rt (c # cs) =
     (if c = 58 \<or> isspace rt c then
        (case match_seps_digits rt cs of Some d \<Rightarrow> Some d | None \<Rightarrow> match_digits rt (c # cs))
      else match_digits rt (c # cs))"

definition match_score_tail :: "runtime \<Rightarrow> pystr \<Rightarrow> pystr option" where
  "match_score_tail rt s =
     (case match_literal rt (ascii ''score'') s of None \<Rightarrow> None
      | Some r \<Rightarrow> match_seps_digits rt r)"

definition match_score_at :: "runtime \<Rightarrow> pystr \<Rightarrow> pystr option" where
  "match_score_at rt s =
     (case match_literal rt (ascii ''accuracy'') s of None \<Rightarrow> None
      | Some r \<Rightarrow>
          (case r of
             [] \<Rightarrow> match_score_tail rt r
           | c # cs \<Rightarrow>
               if c = 95 \<or> isspace rt c then
                 (case match_score_tail rt cs of Some d \<Rightarrow> Some d | None \<Rightarrow> match_score_tail rt r)
               else match_score_tail rt r))"

fun score_search :: "runtime \<Rightarrow> pystr \<Rightarrow> pystr option" where
  "score_search rt [] = match_score_at rt []"
| "score_search rt (c # cs) =
     (case match_score_at rt (c # cs) of Some d \<Rightarrow> Some d | None \<Rightarrow> score_search rt cs)"

text \<open>
  \<open>int\<close> on a run of decimal digits: their value in base ten, or \<open>ValueError\<close>
  when the run is longer than the limit of the run time.
\<close>

definition py_int :: "runtime \<Rightarrow> pystr \<Rightarrow> pyexn + int" where
  "py_int rt d =
     (if 0 < max_str_digits rt \<and> max_str_digits rt < length d then Inl ValueError
      else Inr (foldl (\<lambda>a c. 10 * a + int (case digit_value rt c of Some v \<Rightarrow> v | None \<Rightarrow> 0)) 0 d))"

datatype section_name = Correct | Missed | Wrong

type_synonym scan_state = "section_name option \<times> pystr list \<times> pystr list \<times> pystr list"

definition is_correct_line :: "pystr \<Rightarrow> bool" where
  "is_correct_line l =
     (contains (ascii ''correct'') l \<or> contains (ascii ''good'') l \<or> contains (ascii ''accurate'') l)"

definition is_missed_line :: "pystr \<Rightarrow> bool" where
  "is_missed_line l = (contains (ascii ''missed'') l \<or> contains (ascii ''missing'') l)"

definition is_wrong_line :: "pystr \<Rightarrow> bool" where
  "is_wrong_line l =
     (contains (ascii ''wrong'') l \<or> contains (ascii ''incorrect'') l \<or> contains (ascii ''error'') l)"

text \<open>The bullet markers \<open>-\<close>, \<open>U+2022\<close> and \<open>*\<close>.\<close>

definition is_bullet_line :: "pystr \<Rightarrow> bool" where
  "is_bullet_line line = (startswith line [45] \<or> startswith line [8226] \<or> startswith line [42])"

definition add_point :: "scan_state \<Rightarrow> pystr \<Rightarrow> scan_state" where
  "add_point st point =
     (case st of (current_section, correct_points, missed_points, wrong_points) \<Rightarrow>
        (case current_section of
           None \<Rightarrow> st
         | Some Correct \<Rightarrow> (current_section, correct_points @ [point], missed_points, wrong_points)
         | Some Missed \<Rightarrow> (current_section, correct_points, missed_points @ [point], wrong_points)
         | Some Wrong \<Rightarrow> (current_section, correct_points, missed_points, wrong_points @ [point])))"

text \<open>One iteration of the loop over the lines.\<close>

definition scan_line :: "runtime \<Rightarrow> scan_state \<Rightarrow> pystr \<Rightarrow> scan_state" where
  "scan_line rt st raw =
     (case st of (current_section, correct_points, missed_points, wrong_points) \<Rightarrow>
        (let line = strip rt raw in
         if line = [] then st
         else if is_correct_line (lower rt line) then (Some Correct, correct_points, missed_points, wrong_points)
         else if is_missed_line (lower rt line) then (Some Missed, correct_points, missed_points, wrong_points)
         else if is_wrong_line (lower rt line) then (Some Wrong, correct_points, missed_points, wrong_points)
         else if is_bullet_line line then
           (let point = strip rt (drop 1 line) in
            if point \<noteq> [] then add_point st point else st)
         else st))"

definition scan_lines :: "runtime \<Rightarrow> pystr \<Rightarrow> scan_state" where
  "scan_lines rt response_text = foldl (scan_line rt) (None, [], [], []) (split_on 10 response_text)"

definition str_list :: "pystr list \<Rightarrow> pyval" where
  "str_list ps = PList (map PStr ps)"

definition fallback_parsing_body :: "runtime \<Rightarrow> pystr \<Rightarrow> pyexn + comparison" where
  "fallback_parsing_body rt response_text =
     (case (case score_search rt response_text of
              None \<Rightarrow> Inr 50
            | Some d \<Rightarrow> py_int rt d) of
        Inl e \<Rightarrow> Inl e
      | Inr accuracy_score \<Rightarrow>
          (case scan_lines rt response_text of (current_section, correct_points, missed_points, wrong_points) \<Rightarrow>
             Inr (PInt accuracy_score, str_list correct_points, str_list missed_points, str_list wrong_points)))"

definition fallback_parsing :: "runtime \<Rightarrow> pystr \<Rightarrow> pyexn + comparison" where
  "fallback_parsing rt response_text =
     try_except (fallback_parsing_body rt response_text)
       (\<lambda>e. Inr (PInt 50, PList [], PList [], PList []))"

section \<open>Structured extraction: \<open>_parse_comparison_response\<close>\<close>

text \<open>
  \<open>re.search(r'\{.*\}', text, re.DOTALL)\<close>: with \<open>DOTALL\<close> the dot matches every
  character, so the leftmost match starts at the first \<open>{\<close> and the greedy star
  ends it at the last \<open>}\<close> after it; there is no match when no \<open>}\<close> follows the
  first \<open>{\<close>.
\<close>

definition json_match :: "pystr \<Rightarrow> pystr option" where
  "json_match response_text =
     (case dropWhile (\<lambda>c. c \<noteq> 123) response_text of
        [] \<Rightarrow> None
      | b # r \<Rightarrow>
          (let body = rev (dropWhile (\<lambda>c. c \<noteq> 125) (rev r))
           in if body = [] then None else Some (b # body)))"

definition dict_get :: "(pystr \<times> pyval) list \<Rightarrow> pystr \<Rightarrow> pyval \<Rightarrow> pyval" where
  "dict_get d k dflt = (case map_of d k of Some v \<Rightarrow> v | None \<Rightarrow> dflt)"

text \<open>\<open>data.get(key, default)\<close>: only a dictionary has the method.\<close>

definition py_get :: "pyval \<Rightarrow> pystr \<Rightarrow> pyval \<Rightarrow> pyexn + pyval" where
  "py_get data k dflt = (case data of PDict d \<Rightarrow> Inr (dict_get d k dflt) | _ \<Rightarrow> Inl AttributeError)"

definition then_do :: "pyexn + 'a \<Rightarrow> ('a \<Rightarrow> pyexn + 'b) \<Rightarrow> pyexn + 'b" where
  "then_do m f = (case m of Inl e \<Rightarrow> Inl e | Inr v \<Rightarrow> f v)"

definition parse_comparison_response_body :: "runtime \<Rightarrow> pystr \<Rightarrow> pyexn + comparison" where
  "parse_comparison_response_body rt response_text =
     (case json_match response_text of
        Some json_str \<Rightarrow>
          then_do (loads rt json_str) (\<lambda>data.
          then_do (py_get data (ascii ''accuracy_score'') (PInt 0)) (\<lambda>accuracy_score.
          then_do (py_get data (ascii ''correct_points'') (PList [])) (\<lambda>correct_points.
          then_do (py_get data (ascii ''missed_points'') (PList [])) (\<lambda>missed_points.
          then_do (py_get data (ascii ''wrong_points'') (PList [])) (\<lambda>wrong_points.
          Inr (accuracy_score, correct_points, missed_points, wrong_points))))))
      | None \<Rightarrow> fallback_parsing rt response_text)"

definition parse_comparison_response :: "runtime \<Rightarrow> pystr \<Rightarrow> pyexn + comparison" where
  "parse_comparison_response rt response_text =
     try_except (parse_comparison_response_body rt response_text)
       (\<lambda>e. fallback_parsing rt response_text)"

section \<open>The local overlap scorer: \<open>_simple_comparison\<close>\<close>

text \<open>
  \<open>overlap / total_original\<close> and the product with \<open>100\<close> are computed in binary64
  floating point: each operation returns the exact result rounded to the nearest
  number with a 53-bit significand, ties to the even significand. A finite float is
  the rational it denotes; \<open>round_double\<close> is the rounding, for arguments of
  magnitude below \<open>2 ^ 1023\<close> (the service never leaves \<open>[0, 100]\<close>).
\<close>

definition pow2 :: "int \<Rightarrow> rat" where
  "pow2 e = (if 0 \<le> e then 2 ^ nat e else 1 / 2 ^ nat (- e))"

text \<open>For \<open>0 < x\<close>, the exponent \<open>e\<close> with \<open>2 ^ e \<le> x < 2 ^ (e + 1)\<close>.\<close>

definition ilog2 :: "rat \<Rightarrow> int" where
  "ilog2 x =
     (case quotient_of x of (a, b) \<Rightarrow>
        (let d = bitlen a - bitlen b in if pow2 d \<le> x then d else d - 1))"

definition round_half_even :: "rat \<Rightarrow> int" where
  "round_half_even m =
     (let f = \<lfloor>m\<rfloor>; r = m - of_int f
      in if r < 1 / 2 then f else if 1 / 2 < r then f + 1 else if even f then f else f + 1)"

definition round_pos :: "rat \<Rightarrow> rat" where
  "round_pos x =
     (let q = max (ilog2 x - 52) (- 1074)
      in of_int (round_half_even (x / pow2 q)) * pow2 q)"

definition round_double :: "rat \<Rightarrow> rat" where
  "round_double x = (if x = 0 then 0 else if 0 < x then round_pos x else - round_pos (- x))"

text \<open>True division of two integers, and the product of two floats.\<close>

definition float_div :: "nat \<Rightarrow> nat \<Rightarrow> rat" where
  "float_div a b = round_double (of_nat a / of_nat b)"

definition float_mul :: "rat \<Rightarrow> rat \<Rightarrow> rat" where
  "float_mul x y = round_double (x * y)"

text \<open>\<open>int\<close> on a float truncates towards zero.\<close>

definition float_to_int :: "rat \<Rightarrow> int" where
  "float_to_int x = (if 0 \<le> x then \<lfloor>x\<rfloor> else \<lceil>x\<rceil>)"

definition word_set :: "runtime \<Rightarrow> pystr \<Rightarrow> pystr set" where
  "word_set rt text = set (split rt (lower rt text))"

text \<open>\<open>int((overlap / total_original) * 100)\<close>, the score before \<open>min\<close>.\<close>

definition percentage :: "nat \<Rightarrow> nat \<Rightarrow> int" where
  "percentage overlap total_original =
     float_to_int (float_mul (float_div overlap total_original) 100)"

definition overlap_score :: "nat \<Rightarrow> nat \<Rightarrow> int" where
  "overlap_score overlap total_original =
     (if 0 < total_original then min 100 (percentage overlap total_original) else 50)"

definition simple_comparison_body :: "runtime \<Rightarrow> pystr \<Rightarrow> pystr \<Rightarrow> pyexn + comparison" where
  "simple_comparison_body rt original_text summary_text =
     (let original_words = word_set rt original_text;
          summary_words = word_set rt summary_text;
          overlap = card (original_words \<inter> summary_words);
          total_original = card original_words;
          accuracy_score = overlap_score overlap total_original
      in Inr (PInt accuracy_score,
              str_list [ascii ''Basic content overlap detected''],
              str_list [ascii ''Detailed analysis not available''],
              str_list []))"

definition simple_comparison :: "runtime \<Rightarrow> pystr \<Rightarrow> pystr \<Rightarrow> pyexn + comparison" where
  "simple_comparison rt original_text summary_text =
     try_except (simple_comparison_body rt original_text summary_text)
       (\<lambda>e. Inr (PInt 50, PList [], PList [], PList []))"

text \<open>
  The score as the specification words it, for comparison with \<open>overlap_score\<close>:
  the minimum of 100 and the quotient \<open>100 * overlap / total\<close> rounded to the nearest
  integer, and 50 when the reference has no word.
\<close>

definition spec_overlap_score :: "nat \<Rightarrow> nat \<Rightarrow> int" where
  "spec_overlap_score overlap total_original =
     (if 0 < total_original
      then min 100 (round (100 * (of_nat overlap :: rat) / of_nat total_original))
      else 50)"

definition placeholder_correct :: pyval where
  "placeholder_correct = str_list [ascii ''Basic content overlap detected'']"

definition placeholder_missed :: pyval where
  "placeholder_missed = str_list [ascii ''Detailed analysis not available'']"

section \<open>The prompt and the entry point \<open>compare_texts\<close>\<close>

definition mode_descriptions :: "(pystr \<times> pystr) list" where
  "mode_descriptions =
     [(ascii ''skimming'', ascii ''Quick overview focusing on main ideas and key points''),
      (ascii ''comprehension'', ascii ''Understanding check and verification of key concepts''),
      (ascii ''study'', ascii ''Educational focus with detailed analysis of learning objectives''),
      (ascii ''review'', ascii ''Revision and retention focus with emphasis on important details''),
      (ascii ''summary'', ascii ''Summary generation and evaluation with focus on conciseness''),
      (ascii ''detailed'', ascii ''Comprehensive analysis of all content and details''),
      (ascii ''critical'', ascii ''Analysis and evaluation of arguments and evidence''),
      (ascii ''comparison'', ascii ''Compare multiple texts or versions with emphasis on differences'')]"

definition prompt_head :: pystr where
  \<open>prompt_head =
     ascii
      (''\<newline>'' @
       ''You are an expert text analyst. Compare the original text with the user's summary and provide a detailed analysis.\<newline>'' @
       ''\<newline>'' @
       ''\<newline>'' @
       ''**Original Text**:\<newline>'')\<close>

definition prompt_middle :: pystr where
  \<open>prompt_middle =
     ascii
      (''\<newline>'' @
       ''\<newline>'' @
       ''**User's Summary**:\<newline>'')\<close>

definition prompt_tail :: pystr where
  \<open>prompt_tail =
     ascii
      (''\<newline>'' @
       ''\<newline>'' @
       ''**Analysis Instructions**:\<newline>'' @
       ''1. Evaluate how well the summary captures the key points from the original text\<newline>'' @
       ''2. Provide an accuracy score from 0 to 100\<newline>'' @
       ''3. Identify correctly captured points\<newline>'' @
       ''4. Identify important points that were missed\<newline>'' @
       ''5. Identify any incorrect or misleading information\<newline>'' @
       ''\<newline>'' @
       ''**Response Format**:\<newline>'' @
       ''Please respond in the following JSON format:\<newline>'' @
       ''\<newline>'' @
       ''{\<newline>'' @
       ''    "accuracy_score": <0-100>,\<newline>'' @
       ''    "correct_points": [\<newline>'' @
       ''        "Point 1 description",\<newline>'' @
       ''        "Point 2 description"\<newline>'' @
       ''    ],\<newline>'' @
       ''    "missed_points": [\<newline>'' @
       ''        "Important point that was missed",\<newline>'' @
       ''        "Another missed point"\<newline>'' @
       ''    ],\<newline>'' @
       ''    "wrong_points": [\<newline>'' @
       ''        "Incorrect information in summary",\<newline>'' @
       ''        "Misleading statement"\<newline>'' @
       ''    ]\<newline>'' @
       ''}\<newline>'' @
       ''\<newline>'' @
       ''**Guidelines**:\<newline>'' @
       ''- Be objective and fair in your assessment\<newline>'' @
       ''- Focus on the most important points for the given reading mode\<newline>'' @
       ''- Provide specific, actionable feedback\<newline>'' @
       ''- Consider the context and purpose of the reading mode\<newline>'' @
       ''- Accuracy score should reflect overall quality and completeness\<newline>'')\<close>

text \<open>
  The description of the reading mode is looked up, with the description of
  \<open>detailed\<close> for an unknown mode; the text of the prompt does not use it.
\<close>

definition create_comparison_prompt :: "pystr \<Rightarrow> pystr \<Rightarrow> pystr \<Rightarrow> pystr" where
  "create_comparison_prompt original_text summary_text reading_mode =
     (let mode_desc =
            (case map_of mode_descriptions reading_mode of
               Some d \<Rightarrow> d
             | None \<Rightarrow>
                 (case map_of mode_descriptions (ascii ''detailed'') of Some d \<Rightarrow> d | None \<Rightarrow> []))
      in prompt_head @ original_text @ prompt_middle @ summary_text @ prompt_tail)"

text \<open>
  The service holds a model or \<open>None\<close>. A configured model is the function from the
  prompt to the text of its response, \<open>self.model.generate_content(prompt)\<close> followed
  by \<open>response.text\<close>; either step may raise.
\<close>

type_synonym model = "(pystr \<Rightarrow> pyexn + pystr) option"


definition compare_texts ::
  "runtime \<Rightarrow> model \<Rightarrow> pystr \<Rightarrow> pystr \<Rightarrow> pystr \<Rightarrow> pyexn + comparison" where
  "compare_texts rt m original_text summary_text reading_mode =
     (case m of
        None \<Rightarrow> simple_comparison rt original_text summary_text
      | Some generate_content \<Rightarrow>
          try_except
            (then_do (generate_content (create_comparison_prompt original_text summary_text reading_mode))
               (\<lambda>response_text. parse_comparison_response rt response_text))
            (\<lambda>e. simple_comparison rt original_text summary_text))"

section \<open>The run time on ASCII text\<close>

text \<open>
  On text of ASCII characters the parameters are these: the whitespace characters are
  tab, line feed, vertical tab, form feed, carriage return, the four separators
  \<open>0x1C\<close> to \<open>0x1F\<close> and the space; \<open>lower\<close> maps \<open>A\<close> to \<open>Z\<close> to
  \<open>a\<close> to \<open>z\<close>; a letter of a pattern matches itself and its capital;
  the digits are \<open>0\<close> to \<open>9\<close>; \<open>int\<close> accepts 4300 digits.
\<close>

definition ascii_isspace :: "nat \<Rightarrow> bool" where
  "ascii_isspace c = ((9 \<le> c \<and> c \<le> 13) \<or> (28 \<le> c \<and> c \<le> 32))"

definition ascii_lower_char :: "nat \<Rightarrow> nat" where
  "ascii_lower_char c = (if 65 \<le> c \<and> c \<le> 90 then c + 32 else c)"

definition ascii_ci_eq :: "nat \<Rightarrow> nat \<Rightarrow> bool" where
  "ascii_ci_eq p c = (ascii_lower_char c = ascii_lower_char p)"

definition ascii_digit_value :: "nat \<Rightarrow> nat option" where
  "ascii_digit_value c = (if 48 \<le> c \<and> c \<le> 57 then Some (c - 48) else None)"

text \<open>
  The decoder of \<open>json.loads\<close> on the JSON texts made of objects, arrays, strings
  without escapes, integers, \<open>true\<close>, \<open>false\<close> and \<open>null\<close>, with the
  whitespace of JSON between tokens. A later pair of an object replaces an earlier
  one with the same key. Every other text is answered with \<open>JSONDecodeError\<close>, so
  this decoder stands for \<open>json.loads\<close> only on texts of that fragment; it is used
  below at concrete texts only. The first argument bounds the nesting and the number
  of elements read; \<open>ascii_loads\<close> gives it the length of the text.
\<close>

definition json_ws :: "pystr \<Rightarrow> pystr" where
  "json_ws s = dropWhile (\<lambda>c. c = 32 \<or> c = 9 \<or> c = 10 \<or> c = 13) s"

definition decode_string :: "pystr \<Rightarrow> (pystr \<times> pystr) option" where
  "decode_string s =
     (let body = takeWhile (\<lambda>c. c \<noteq> 34) s; r = dropWhile (\<lambda>c. c \<noteq> 34) s
      in if r = [] \<or> list_ex (\<lambda>c. c = 92 \<or> c < 32) body then None else Some (body, drop 1 r))"

definition decode_int :: "pystr \<Rightarrow> (int \<times> pystr) option" where
  "decode_int s =
     (let neg = startswith s [45];
          t = (if neg then drop 1 s else s);
          ds = (if startswith t [48] then [48] else takeWhile (\<lambda>c. 48 \<le> c \<and> c \<le> 57) t);
          r = drop (length ds) t;
          n = foldl (\<lambda>a c. 10 * a + int (c - 48)) 0 ds
      in if ds = [] \<or> startswith r [46] \<or> startswith r [101] \<or> startswith r [69] then None
         else Some (if neg then - n else n, r))"

fun dict_set :: "(pystr \<times> pyval) list \<Rightarrow> pystr \<Rightarrow> pyval \<Rightarrow> (pystr \<times> pyval) list" where
  "dict_set [] k v = [(k, v)]"
| "dict_set (p # ps) k v = (if fst p = k then (k, v) # ps else p # dict_set ps k v)"

fun decode_value :: "nat \<Rightarrow> pystr \<Rightarrow> (pyval \<times> pystr) option"
  and decode_elements :: "nat \<Rightarrow> pyval list \<Rightarrow> pystr \<Rightarrow> (pyval list \<times> pystr) option"
  and decode_pairs :: "nat \<Rightarrow> (pystr \<times> pyval) list \<Rightarrow> pystr \<Rightarrow> ((pystr \<times> pyval) list \<times> pystr) option"
where
  "decode_value 0 s = None"
| "decode_value (Suc n) s =
     (if startswith s [34] then
        (case decode_string (drop 1 s) of None \<Rightarrow> None | Some (b, r) \<Rightarrow> Some (PStr b, r))
      else if startswith s [123] then
        (let r = json_ws (drop 1 s) in
         if startswith r [125] then Some (PDict [], drop 1 r)
         else (case decode_pairs n [] r of None \<Rightarrow> None | Some (d, r') \<Rightarrow> Some (PDict d, r')))
      else if startswith s [91] then
        (let r = json_ws (drop 1 s) in
         if startswith r [93] then Some (PList [], drop 1 r)
         else (case decode_elements n [] r of None \<Rightarrow> None | Some (xs, r') \<Rightarrow> Some (PList xs, r')))
      else if startswith s (ascii ''null'') then Some (PNone, drop 4 s)
      else if startswith s (ascii ''true'') then Some (PBool True, drop 4 s)
      else if startswith s (ascii ''false'') then Some (PBool False, drop 5 s)
      else (case decode_int s of None \<Rightarrow> None | Some (i, r) \<Rightarrow> Some (PInt i, r)))"
| "decode_elements 0 acc s = None"
| "decode_elements (Suc n) acc s =
     (case decode_value n s of
        None \<Rightarrow> None
      | Some (v, r) \<Rightarrow>
          (let r' = json_ws r in
           if startswith r' [93] then Some (acc @ [v], drop 1 r')
           else if startswith r' [44] then decode_elements n (acc @ [v]) (json_ws (drop 1 r'))
           else None))"
| "decode_pairs 0 acc s = None"
| "decode_pairs (Suc n) acc s =
     (if startswith s [34] then
        (case decode_string (drop 1 s) of
           None \<Rightarrow> None
         | Some (k, r) \<Rightarrow>
             (let r1 = json_ws r in
              if startswith r1 [58] then
                (case decode_value n (json_ws (drop 1 r1)) of
                   None \<Rightarrow> None
                 | Some (v, r2) \<Rightarrow>
                     (let r3 = json_ws r2 in
                      if startswith r3 [125] then Some (dict_set acc k v, drop 1 r3)
                      else if startswith r3 [44] then decode_pairs n (dict_set acc k v) (json_ws (drop 1 r3))
                      else None))
              else None))
      else None)"

definition ascii_loads :: "pystr \<Rightarrow> pyexn + pyval" where
  "ascii_loads s =
     (case decode_value (Suc (length s)) (json_ws s) of
        None \<Rightarrow> Inl JSONDecodeError
      | Some (v, r) \<Rightarrow> if json_ws r = [] then Inr v else Inl JSONDecodeError)"

definition ascii_runtime :: runtime where
  "ascii_runtime =
     \<lparr> isspace = ascii_isspace,
       lower = map ascii_lower_char,
       ci_eq = ascii_ci_eq,
       digit_value = ascii_digit_value,
       max_str_digits = 4300,
       loads = ascii_loads \<rparr>"

section \<open>Texts of the examples\<close>

definition structured_response :: pystr where
  \<open>structured_response =
     ascii ''{"accuracy_score": 82, "correct_points": ["a"], "missed_points": ["b"], "wrong_points": []}''\<close>

definition structured_object :: pyval where
  "structured_object =
     PDict [(ascii ''accuracy_score'', PInt 82),
            (ascii ''correct_points'', PList [PStr (ascii ''a'')]),
            (ascii ''missed_points'', PList [PStr (ascii ''b'')]),
            (ascii ''wrong_points'', PList [])]"



definition heuristic_response :: pystr where
  \<open>heuristic_response =
     ascii ''Accuracy Score: 70\<newline>Correct:\<newline>- point one\<newline>Missed:\<newline>- point two''\<close>

section \<open>Structured extraction returns what the object holds\<close>

lemma json_match_structured_response: "json_match structured_response = Some structured_response"
  by code_simp

text \<open>
  Claim C1. The claim: whichever tier produces the result of \<open>compare_texts\<close>, the
  accuracy score is an integer between 0 and 100. The code returns the score of the
  model's text as it stands: a model answering with the object
  \<open>{"accuracy_score": 140}\<close> makes \<open>compare_texts\<close> return the score 140 through the
  structured tier, and one answering \<open>Accuracy Score: 999\<close> makes it return 999
  through the heuristic tier.
\<close>

theorem C1_score_out_of_range:
  \<open>compare_texts ascii_runtime (Some (\<lambda>prompt. Inr (ascii ''{"accuracy_score": 140}'')))
      (ascii ''a b'') (ascii ''a'') (ascii ''detailed'')
     = Inr (PInt 140, PList [], PList [], PList [])
   \<and> compare_texts ascii_runtime (Some (\<lambda>prompt. Inr (ascii ''Accuracy Score: 999'')))
      (ascii ''a b'') (ascii ''a'') (ascii ''detailed'')
     = Inr (PInt 999, PList [], PList [], PList [])\<close>
  by code_simp

text \<open>
  Claim C2. The claim: structured extraction reads \<open>accuracy_score\<close> with default 0
  when the key is missing or its value is not a number, and clamps it to the range
  0 to 100, so that 140 yields 100 and -5 yields 0. The code takes the default 0 for a
  missing key only, and returns every value it finds unchanged: 140 stays 140, -5
  stays -5, and the string \<open>high\<close> is returned as the score.
\<close>

theorem C2_score_not_clamped:
  \<open>parse_comparison_response ascii_runtime (ascii ''{"accuracy_score": 140}'')
     = Inr (PInt 140, PList [], PList [], PList [])
   \<and> parse_comparison_response ascii_runtime (ascii ''{"accuracy_score": -5}'')
     = Inr (PInt (- 5), PList [], PList [], PList [])
   \<and> parse_comparison_response ascii_runtime (ascii ''{"accuracy_score": "high"}'')
     = Inr (PStr (ascii ''high''), PList [], PList [], PList [])
   \<and> parse_comparison_response ascii_runtime (ascii ''{"correct_points": []}'')
     = Inr (PInt 0, PList [], PList [], PList [])\<close>
  by code_simp

text \<open>
  Claim C6. The claim: the three point lists of the interpreted result are always
  lists of strings, never absent or null, an empty list standing for an array that is
  missing or is not a list of strings. The code puts the empty list for a missing key
  only: a \<open>null\<close>, a number or a list of numbers under one of the three keys is
  returned as it is.
\<close>

theorem C6_points_not_validated:
  \<open>parse_comparison_response ascii_runtime
      (ascii ''{"accuracy_score": 80, "correct_points": null, "missed_points": 7, "wrong_points": [1]}'')
     = Inr (PInt 80, PNone, PInt 7, PList [PInt 1])\<close>
  by code_simp

text \<open>
  Claim C7. Round trip of a well-formed structured response: the text
  \<open>{"accuracy_score": 82, "correct_points": ["a"], "missed_points": ["b"], "wrong_points": []}\<close>,
  decoded by \<open>json.loads\<close> to the object it denotes, is interpreted as score 82,
  correct points \<open>["a"]\<close>, missed points \<open>["b"]\<close> and no wrong points, and it is the
  structured path (the body of the \<open>try\<close>, with the match of the braces) that returns
  this value, not the heuristic scan.
\<close>

theorem C7_round_trip:
  assumes "loads rt structured_response = Inr structured_object"
  shows "json_match structured_response = Some structured_response
       \<and> parse_comparison_response_body rt structured_response
           = Inr (PInt 82, str_list [ascii ''a''], str_list [ascii ''b''], str_list [])
       \<and> parse_comparison_response rt structured_response
           = Inr (PInt 82, str_list [ascii ''a''], str_list [ascii ''b''], str_list [])"
proof -
  have "parse_comparison_response_body rt structured_response
          = Inr (PInt 82, str_list [ascii ''a''], str_list [ascii ''b''], str_list [])"
    unfolding parse_comparison_response_body_def json_match_structured_response
    by (simp add: assms then_do_def)
       (simp add: structured_object_def py_get_def dict_get_def str_list_def ascii_def)
  then show ?thesis
    by (simp add: parse_comparison_response_def try_except_def json_match_structured_response)
qed

theorem C7_round_trip_witness:
  "loads ascii_runtime structured_response = Inr structured_object
   \<and> parse_comparison_response ascii_runtime structured_response
       = Inr (PInt 82, str_list [ascii ''a''], str_list [ascii ''b''], str_list [])"
proof -
  have h: "loads ascii_runtime structured_response = Inr structured_object"
    by code_simp
  show ?thesis using h C7_round_trip [OF h] by simp
qed

section \<open>The heuristic line scan\<close>

text \<open>
  Claim C9. In the line scan the test for a section keyword comes before the test for
  a bullet, in a fixed order: a line (stripped, not empty) whose lowercase form contains
  \<open>correct\<close>, \<open>good\<close> or \<open>accurate\<close> makes the section \<open>correct\<close>; otherwise one that
  contains \<open>missed\<close> or \<open>missing\<close> makes it \<open>missed\<close>; otherwise one that contains
  \<open>wrong\<close>, \<open>incorrect\<close> or \<open>error\<close> makes it \<open>wrong\<close>; in the three cases the
  lists of points stay as they are. A line changes a list only when it contains none of
  the keywords and begins with a bullet marker, so a bullet line with a keyword in it
  switches the section and is appended nowhere.
\<close>

theorem C9_keyword_priority:
  assumes "strip rt raw \<noteq> []"
  shows "(is_correct_line (lower rt (strip rt raw)) \<longrightarrow>
            scan_line rt (cur, cp, mp, wp) raw = (Some Correct, cp, mp, wp))
       \<and> (\<not> is_correct_line (lower rt (strip rt raw)) \<and> is_missed_line (lower rt (strip rt raw)) \<longrightarrow>
            scan_line rt (cur, cp, mp, wp) raw = (Some Missed, cp, mp, wp))
       \<and> (\<not> is_correct_line (lower rt (strip rt raw)) \<and> \<not> is_missed_line (lower rt (strip rt raw))
           \<and> is_wrong_line (lower rt (strip rt raw)) \<longrightarrow>
            scan_line rt (cur, cp, mp, wp) raw = (Some Wrong, cp, mp, wp))
       \<and> (snd (scan_line rt (cur, cp, mp, wp) raw) \<noteq> (cp, mp, wp) \<longrightarrow>
            \<not> is_correct_line (lower rt (strip rt raw)) \<and> \<not> is_missed_line (lower rt (strip rt raw))
            \<and> \<not> is_wrong_line (lower rt (strip rt raw)) \<and> is_bullet_line (strip rt raw))"
  using assms
  by (simp add: scan_line_def Let_def add_point_def split: option.splits section_name.splits)

theorem C9_keyword_priority_witness:
  \<open>strip ascii_runtime (ascii ''- good point'') \<noteq> []
   \<and> is_bullet_line (strip ascii_runtime (ascii ''- good point''))
   \<and> is_correct_line (lower ascii_runtime (strip ascii_runtime (ascii ''- good point'')))
   \<and> scan_line ascii_runtime (Some Missed, [], [], []) (ascii ''- good point'') = (Some Correct, [], [], [])\<close>
proof -
  have h: \<open>strip ascii_runtime (ascii ''- good point'') \<noteq> []\<close> by code_simp
  have b: \<open>is_bullet_line (strip ascii_runtime (ascii ''- good point''))\<close> by code_simp
  have k: \<open>is_correct_line (lower ascii_runtime (strip ascii_runtime (ascii ''- good point'')))\<close>
    by code_simp
  from C9_keyword_priority [OF h, of "Some Missed" "[]" "[]" "[]"] h b k show ?thesis by blast
qed

text \<open>
  Claim C3, as stated: every line that begins with a bullet marker while a section is
  active is trimmed of its marker and, if not empty, appended to that section's list.
  It fails on the text \<open>Correct:\<close>, \<open>- good point\<close>: after the first line the section
  \<open>correct\<close> is active, the second line begins with \<open>-\<close> and its point \<open>good point\<close>
  is not empty, and the scan appends it to no list.
\<close>

theorem C3_bullet_with_keyword_dropped:
  \<open>scan_line ascii_runtime (None, [], [], []) (ascii ''Correct:'') = (Some Correct, [], [], [])
   \<and> is_bullet_line (strip ascii_runtime (ascii ''- good point''))
   \<and> strip ascii_runtime (drop 1 (strip ascii_runtime (ascii ''- good point''))) = ascii ''good point''
   \<and> scan_line ascii_runtime (Some Correct, [], [], []) (ascii ''- good point'') = (Some Correct, [], [], [])
   \<and> parse_comparison_response ascii_runtime (ascii ''Correct:\<newline>- good point'')
       = Inr (PInt 50, PList [], PList [], PList [])\<close>
  by code_simp

lemma heuristic_example:
  "parse_comparison_response ascii_runtime heuristic_response
     = Inr (PInt 70, str_list [ascii ''point one''], str_list [ascii ''point two''], str_list [])"
  by code_simp

text \<open>
  Claim C3, amended. For a line that is not empty once stripped and whose lowercase form
  does not contain \<open>incorrect\<close>: if it contains \<open>correct\<close>, \<open>good\<close> or \<open>accurate\<close> the
  section becomes \<open>correct\<close>; otherwise, if it contains \<open>missed\<close> or \<open>missing\<close>, the
  section becomes \<open>missed\<close>; otherwise, if it contains \<open>wrong\<close> or \<open>error\<close>, the section
  becomes \<open>wrong\<close>; otherwise, if it begins with \<open>-\<close>, \<open>U+2022\<close> or \<open>*\<close> and the rest,
  stripped, is not empty, that rest is appended to the list of the active section, if
  there is one; otherwise nothing changes. The text
  \<open>Accuracy Score: 70\<close>, \<open>Correct:\<close>, \<open>- point one\<close>, \<open>Missed:\<close>, \<open>- point two\<close>
  yields score 70, correct points \<open>["point one"]\<close>, missed points \<open>["point two"]\<close> and
  no wrong points.
\<close>

theorem C3_line_scan:
  assumes "strip rt raw \<noteq> []"
      and "\<not> contains (ascii ''incorrect'') (lower rt (strip rt raw))"
  shows "scan_line rt (cur, cp, mp, wp) raw =
           (let line = strip rt raw; l = lower rt line; point = strip rt (drop 1 line) in
            if contains (ascii ''correct'') l \<or> contains (ascii ''good'') l \<or> contains (ascii ''accurate'') l
              then (Some Correct, cp, mp, wp)
            else if contains (ascii ''missed'') l \<or> contains (ascii ''missing'') l
              then (Some Missed, cp, mp, wp)
            else if contains (ascii ''wrong'') l \<or> contains (ascii ''error'') l
              then (Some Wrong, cp, mp, wp)
            else if (startswith line [45] \<or> startswith line [8226] \<or> startswith line [42]) \<and> point \<noteq> []
              then (case cur of
                      None \<Rightarrow> (cur, cp, mp, wp)
                    | Some Correct \<Rightarrow> (cur, cp @ [point], mp, wp)
                    | Some Missed \<Rightarrow> (cur, cp, mp @ [point], wp)
                    | Some Wrong \<Rightarrow> (cur, cp, mp, wp @ [point]))
            else (cur, cp, mp, wp))
       \<and> parse_comparison_response ascii_runtime heuristic_response
           = Inr (PInt 70, str_list [ascii ''point one''], str_list [ascii ''point two''], str_list [])"
  using assms heuristic_example
  by (simp add: scan_line_def Let_def add_point_def is_correct_line_def is_missed_line_def
        is_wrong_line_def is_bullet_line_def split: option.splits section_name.splits)

theorem C3_line_scan_witness:
  \<open>strip ascii_runtime (ascii ''- point one'') \<noteq> []
   \<and> \<not> contains (ascii ''incorrect'') (lower ascii_runtime (strip ascii_runtime (ascii ''- point one'')))
   \<and> scan_line ascii_runtime (Some Correct, [], [], []) (ascii ''- point one'')
       = (Some Correct, [ascii ''point one''], [], [])
   \<and> parse_comparison_response ascii_runtime heuristic_response
       = Inr (PInt 70, str_list [ascii ''point one''], str_list [ascii ''point two''], str_list [])\<close>
proof -
  have h1: \<open>strip ascii_runtime (ascii ''- point one'') \<noteq> []\<close> by code_simp
  have h2: \<open>\<not> contains (ascii ''incorrect'')
              (lower ascii_runtime (strip ascii_runtime (ascii ''- point one'')))\<close>
    by code_simp
  have r: \<open>scan_line ascii_runtime (Some Correct, [], [], []) (ascii ''- point one'')
             = (Some Correct, [ascii ''point one''], [], [])\<close>
    by code_simp
  from C3_line_scan [OF h1 h2, of "Some Correct" "[]" "[]" "[]"] h1 h2 r show ?thesis by simp
qed

section \<open>No function of the service raises\<close>










section \<open>The local overlap score\<close>

subsection \<open>Rounding to binary64 stays below a power-of-two multiple\<close>

lemma pow2_powi: "pow2 e = 2 powi e"
  by (simp add: pow2_def power_int_def power_divide inverse_eq_divide)

lemma pow2_pos: "0 < pow2 e"
  by (simp add: pow2_def)

lemma pow2_nonpos: "e \<le> 0 \<Longrightarrow> 1 / pow2 e = of_int (2 ^ nat (- e))"
  by (cases "e = 0") (simp_all add: pow2_def)

lemma ilog2_lower:
  assumes "0 < x"
  shows "pow2 (ilog2 x) \<le> x"
proof -
  obtain a b where q: "quotient_of x = (a, b)" by (cases "quotient_of x")
  then have b: "0 < b" and x: "x = of_int a / of_int b"
    by (auto dest: quotient_of_denom_pos quotient_of_div)
  with assms have a: "0 < a" by (simp add: zero_less_divide_iff)
  let ?d = "bitlen a - bitlen b"
  show ?thesis
  proof (cases "pow2 ?d \<le> x")
    case True
    then show ?thesis by (simp add: ilog2_def q Let_def)
  next
    case False
    then have il: "ilog2 x = ?d - 1" by (simp add: ilog2_def q Let_def)
    have la: "1 \<le> bitlen a" using a bitlen_eq_zero_iff [of a] bitlen_nonneg [of a] by linarith
    have lb: "1 \<le> bitlen b" using b bitlen_eq_zero_iff [of b] bitlen_nonneg [of b] by linarith
    from bitlen_bounds [OF a] have "2 ^ nat (bitlen a - 1) \<le> a" by simp
    then have na: "(2::rat) ^ nat (bitlen a - 1) \<le> of_int a"
      by (metis of_int_le_iff of_int_numeral of_int_power)
    from bitlen_bounds [OF b] have "b < 2 ^ nat (bitlen b)" by simp
    then have nb: "of_int b < (2::rat) ^ nat (bitlen b)"
      by (metis of_int_less_iff of_int_numeral of_int_power)
    have "pow2 (?d - 1) = 2 powi ((bitlen a - 1) - bitlen b)"
      by (simp add: pow2_powi algebra_simps)
    also have "\<dots> = (2::rat) powi (bitlen a - 1) / 2 powi (bitlen b)"
      by (rule power_int_diff) simp
    also have "\<dots> = (2::rat) ^ nat (bitlen a - 1) / 2 ^ nat (bitlen b)"
      using la lb by (simp add: power_int_nonneg_exp)
    also have "\<dots> \<le> of_int a / of_int b"
      using na nb a b by (intro frac_le) simp_all
    finally show ?thesis using il x by simp
  qed
qed

lemma ilog2_less:
  assumes "0 < x" and "x < pow2 k"
  shows "ilog2 x < k"
proof (rule ccontr)
  assume "\<not> ilog2 x < k"
  then have "k \<le> ilog2 x" by simp
  then have "(2::rat) powi k \<le> 2 powi (ilog2 x)"
    by (intro power_int_increasing) simp_all
  with ilog2_lower [OF assms(1)] assms(2) show False by (simp add: pow2_powi)
qed

lemma round_half_even_le:
  assumes "m \<le> of_int n"
  shows "round_half_even m \<le> n"
proof -
  have f: "\<lfloor>m\<rfloor> \<le> n" using assms by (simp add: floor_le_iff)
  show ?thesis
  proof (cases "m - of_int \<lfloor>m\<rfloor> < 1 / 2")
    case True
    then show ?thesis using f by (simp add: round_half_even_def Let_def)
  next
    case False
    then have "of_int \<lfloor>m\<rfloor> < m" by linarith
    then have "m \<noteq> of_int n \<or> \<lfloor>m\<rfloor> < n" by auto
    have "\<lfloor>m\<rfloor> < n"
    proof (rule ccontr)
      assume "\<not> \<lfloor>m\<rfloor> < n"
      with f have "\<lfloor>m\<rfloor> = n" by simp
      with \<open>of_int \<lfloor>m\<rfloor> < m\<close> assms show False by simp
    qed
    then show ?thesis by (simp add: round_half_even_def Let_def)
  qed
qed

lemma round_half_even_nonneg: "0 \<le> m \<Longrightarrow> 0 \<le> round_half_even m"
  by (simp add: round_half_even_def Let_def)

lemma round_pos_nonneg: "0 < x \<Longrightarrow> 0 \<le> round_pos x"
  using pow2_pos by (simp add: round_pos_def Let_def round_half_even_nonneg less_imp_le)

lemma round_pos_le:
  assumes "0 < x" and "x \<le> r"
      and "r / pow2 (max (ilog2 x - 52) (- 1074)) = of_int n"
  shows "round_pos x \<le> r"
proof -
  let ?q = "max (ilog2 x - 52) (- 1074)"
  have p: "0 < pow2 ?q" by (rule pow2_pos)
  have "x / pow2 ?q \<le> r / pow2 ?q" using assms(2) p by (simp add: divide_right_mono)
  then have "round_half_even (x / pow2 ?q) \<le> n" using assms(3) by (simp add: round_half_even_le)
  then have "(of_int (round_half_even (x / pow2 ?q)) :: rat) \<le> of_int n" by simp
  then have "of_int (round_half_even (x / pow2 ?q)) * pow2 ?q \<le> of_int n * pow2 ?q"
    using p by (simp add: mult_right_mono)
  also have "of_int n * pow2 ?q = r" using assms(3) p by (simp add: field_simps)
  finally show ?thesis by (simp add: round_pos_def Let_def)
qed

lemma round_double_nonneg: "0 \<le> x \<Longrightarrow> 0 \<le> round_double x"
  by (simp add: round_double_def round_pos_nonneg)

lemma exponent_nonpos:
  assumes "0 < x" and "x \<le> 100"
  shows "max (ilog2 x - 52) (- 1074) \<le> 0"
proof -
  have "x < pow2 7" using assms(2) by (simp add: pow2_def)
  from ilog2_less [OF assms(1) this] show ?thesis by simp
qed

lemma round_double_le_1:
  assumes "0 \<le> x" and "x \<le> 1"
  shows "round_double x \<le> 1"
proof (cases "x = 0")
  case True
  then show ?thesis by (simp add: round_double_def)
next
  case False
  with assms have pos: "0 < x" by simp
  have "max (ilog2 x - 52) (- 1074) \<le> 0" using pos assms(2) by (intro exponent_nonpos) simp_all
  from pow2_nonpos [OF this] round_pos_le [OF pos assms(2)]
  have "round_pos x \<le> 1" by blast
  with pos show ?thesis by (simp add: round_double_def)
qed

lemma round_double_le_100:
  assumes "0 \<le> x" and "x \<le> 100"
  shows "round_double x \<le> 100"
proof (cases "x = 0")
  case True
  then show ?thesis by (simp add: round_double_def)
next
  case False
  with assms have pos: "0 < x" by simp
  let ?q = "max (ilog2 x - 52) (- 1074)"
  have "?q \<le> 0" using pos assms(2) by (rule exponent_nonpos)
  from pow2_nonpos [OF this] have "100 / pow2 ?q = of_int (100 * 2 ^ nat (- ?q))"
    by (simp add: field_simps)
  from round_pos_le [OF pos assms(2) this]
  show ?thesis using pos by (simp add: round_double_def)
qed

lemma percentage_bounds:
  assumes "k \<le> n" and "0 < n"
  shows "0 \<le> percentage k n \<and> percentage k n \<le> 100"
proof -
  let ?x = "(of_nat k :: rat) / of_nat n"
  have x0: "0 \<le> ?x" by simp
  have x1: "?x \<le> 1" using assms by (simp add: divide_le_eq_1)
  have d0: "0 \<le> float_div k n" unfolding float_div_def using x0 by (rule round_double_nonneg)
  have d1: "float_div k n \<le> 1" unfolding float_div_def using x0 x1 by (rule round_double_le_1)
  have y0: "0 \<le> float_div k n * 100" using d0 by simp
  have y1: "float_div k n * 100 \<le> 100" using d1 by simp
  have m0: "0 \<le> float_mul (float_div k n) 100"
    unfolding float_mul_def using y0 by (rule round_double_nonneg)
  have m1: "float_mul (float_div k n) 100 \<le> 100"
    unfolding float_mul_def using y0 y1 by (rule round_double_le_100)
  show ?thesis using m0 m1 by (simp add: percentage_def float_to_int_def floor_le_iff le_floor_iff)
qed

lemma round_double_1: "round_double 1 = 1"
  by code_simp

lemma round_double_100: "round_double 100 = 100"
  by code_simp

lemma percentage_all: "0 < n \<Longrightarrow> percentage n n = 100"
  by (simp add: percentage_def float_div_def float_mul_def round_double_1 round_double_100
        float_to_int_def)

lemma percentage_none: "percentage 0 n = 0"
  by (simp add: percentage_def float_div_def float_mul_def round_double_def float_to_int_def)

lemma simple_comparison_value:
  "simple_comparison rt a b =
     Inr (PInt (overlap_score (card (word_set rt a \<inter> word_set rt b)) (card (word_set rt a))),
          placeholder_correct, placeholder_missed, PList [])"
  by (simp add: simple_comparison_def try_except_def simple_comparison_body_def Let_def
        placeholder_correct_def placeholder_missed_def str_list_def)

lemma finite_word_set: "finite (word_set rt a)"
  by (simp add: word_set_def)

lemma overlap_le_total: "card (word_set rt a \<inter> word_set rt b) \<le> card (word_set rt a)"
  by (intro card_mono finite_word_set) simp

lemma percentage_29_100: "percentage 29 100 = 28"
  by code_simp

text \<open>
  Claim C10. For every pair of texts the local overlap score is between 0 and 100 before
  \<open>min\<close> is applied: the common words are words of the reference, so the overlap is
  at most the number of reference words, the quotient is at most 1 and the score
  \<open>int((overlap / total_original) * 100)\<close> is at most 100 when the reference has a
  word; \<open>min(100, ...)\<close> changes nothing, and the scorer returns that score. When the
  reference has no word the score is the constant 50.
\<close>

theorem C10_score_in_range_before_clamp:
  "word_set rt a \<inter> word_set rt b \<subseteq> word_set rt a
   \<and> card (word_set rt a \<inter> word_set rt b) \<le> card (word_set rt a)
   \<and> (0 < card (word_set rt a) \<longrightarrow>
        0 \<le> percentage (card (word_set rt a \<inter> word_set rt b)) (card (word_set rt a))
        \<and> percentage (card (word_set rt a \<inter> word_set rt b)) (card (word_set rt a)) \<le> 100
        \<and> simple_comparison rt a b =
            Inr (PInt (percentage (card (word_set rt a \<inter> word_set rt b)) (card (word_set rt a))),
                 placeholder_correct, placeholder_missed, PList []))
   \<and> (card (word_set rt a) = 0 \<longrightarrow>
        simple_comparison rt a b = Inr (PInt 50, placeholder_correct, placeholder_missed, PList []))"
  using percentage_bounds [OF overlap_le_total [of rt a b]]
  by (auto simp: simple_comparison_value overlap_score_def overlap_le_total)

theorem C10_score_in_range_before_clamp_witness:
  \<open>0 < card (word_set ascii_runtime (ascii ''a b c''))
   \<and> percentage (card (word_set ascii_runtime (ascii ''a b c'') \<inter> word_set ascii_runtime (ascii ''a b'')))
        (card (word_set ascii_runtime (ascii ''a b c''))) = 66
   \<and> simple_comparison ascii_runtime (ascii ''a b c'') (ascii ''a b'')
       = Inr (PInt 66, placeholder_correct, placeholder_missed, PList [])
   \<and> card (word_set ascii_runtime (ascii '' '')) = 0
   \<and> simple_comparison ascii_runtime (ascii '' '') (ascii ''a b'')
       = Inr (PInt 50, placeholder_correct, placeholder_missed, PList [])\<close>
proof -
  have h: \<open>0 < card (word_set ascii_runtime (ascii ''a b c''))\<close> by code_simp
  have v: \<open>percentage (card (word_set ascii_runtime (ascii ''a b c'') \<inter> word_set ascii_runtime (ascii ''a b'')))
        (card (word_set ascii_runtime (ascii ''a b c''))) = 66\<close> by code_simp
  have e: \<open>card (word_set ascii_runtime (ascii '' '')) = 0\<close> by code_simp
  from C10_score_in_range_before_clamp [of ascii_runtime \<open>ascii ''a b c''\<close> \<open>ascii ''a b''\<close>]
       C10_score_in_range_before_clamp [of ascii_runtime \<open>ascii '' ''\<close> \<open>ascii ''a b''\<close>] h v e
  show ?thesis by simp
qed

text \<open>
  Claim C4, as stated: the score is \<open>min(100, round(100 * overlap / |reference_words|))\<close>.
  It fails for the reference \<open>a b c\<close> and the candidate \<open>a b\<close>: the overlap is 2
  of 3 words, the formula of the claim gives 67, and the scorer returns 66.
\<close>

theorem C4_truncates_not_rounds:
  \<open>card (word_set ascii_runtime (ascii ''a b c'') \<inter> word_set ascii_runtime (ascii ''a b'')) = 2
   \<and> card (word_set ascii_runtime (ascii ''a b c'')) = 3
   \<and> spec_overlap_score 2 3 = 67
   \<and> simple_comparison ascii_runtime (ascii ''a b c'') (ascii ''a b'')
       = Inr (PInt 66, placeholder_correct, placeholder_missed, PList [])\<close>
  by code_simp

text \<open>
  Claim C4, amended. The local overlap scorer, for every pair of texts, takes the set
  of the whitespace-delimited words of each lowercased text and the size of their
  intersection as overlap, and returns the score
  \<open>min(100, int((overlap / |reference_words|) * 100))\<close>, the quotient and the product
  computed in binary64 floating point and the result truncated, when the reference has
  a word, and 50 when it has none, with the two fixed placeholder points. So a text
  with at least one word compared with itself scores 100, texts without a common word
  score 0, and an empty reference scores 50.
\<close>

theorem C4_local_overlap_score:
  "simple_comparison rt a b =
     Inr (PInt (if word_set rt a \<noteq> {}
                then min 100 (percentage (card (word_set rt a \<inter> word_set rt b)) (card (word_set rt a)))
                else 50),
          placeholder_correct, placeholder_missed, PList [])
   \<and> (word_set rt a \<noteq> {} \<longrightarrow>
        simple_comparison rt a a = Inr (PInt 100, placeholder_correct, placeholder_missed, PList []))
   \<and> (word_set rt a \<noteq> {} \<and> word_set rt a \<inter> word_set rt b = {} \<longrightarrow>
        simple_comparison rt a b = Inr (PInt 0, placeholder_correct, placeholder_missed, PList []))
   \<and> (word_set rt a = {} \<longrightarrow>
        simple_comparison rt a b = Inr (PInt 50, placeholder_correct, placeholder_missed, PList []))
   \<and> (lower rt [] = [] \<longrightarrow>
        simple_comparison rt [] b = Inr (PInt 50, placeholder_correct, placeholder_missed, PList []))"
proof -
  have c: "\<And>t. (0 < card (word_set rt t)) = (word_set rt t \<noteq> {})"
    using finite_word_set by (simp add: card_gt_0_iff)
  have e: "lower rt [] = [] \<Longrightarrow> word_set rt [] = {}"
    by (simp add: word_set_def split_def)
  show ?thesis
    by (auto simp: simple_comparison_value overlap_score_def c e percentage_all percentage_none)
qed

theorem C4_local_overlap_score_witness:
  \<open>word_set ascii_runtime (ascii ''the cat sat'') \<noteq> {}
   \<and> simple_comparison ascii_runtime (ascii ''the cat sat'') (ascii ''the cat sat'')
       = Inr (PInt 100, placeholder_correct, placeholder_missed, PList [])
   \<and> word_set ascii_runtime (ascii ''the cat sat'') \<inter> word_set ascii_runtime (ascii ''a dog ran'') = {}
   \<and> simple_comparison ascii_runtime (ascii ''the cat sat'') (ascii ''a dog ran'')
       = Inr (PInt 0, placeholder_correct, placeholder_missed, PList [])
   \<and> lower ascii_runtime [] = []
   \<and> simple_comparison ascii_runtime [] (ascii ''a dog ran'')
       = Inr (PInt 50, placeholder_correct, placeholder_missed, PList [])\<close>
proof -
  have n: \<open>word_set ascii_runtime (ascii ''the cat sat'') \<noteq> {}\<close> by code_simp
  have d: \<open>word_set ascii_runtime (ascii ''the cat sat'') \<inter> word_set ascii_runtime (ascii ''a dog ran'') = {}\<close>
    by code_simp
  have l: \<open>lower ascii_runtime [] = []\<close> by code_simp
  from C4_local_overlap_score [of ascii_runtime \<open>ascii ''the cat sat''\<close> \<open>ascii ''a dog ran''\<close>] n d l
  show ?thesis by blast
qed

end
